theory Spec2Isabelle
  imports Main
begin

section \<open>The host framework as the collab commands use it\<close>

text \<open>
  The commands of \<^verbatim>\<open>evennia/contrib/collab/commands.py\<close> run against the
  game server: rows of two ORM tables (players and in-world objects), a search
  function, a lock evaluator and \<^verbatim>\<open>self.msg\<close>. The rows and the output are
  explicit state here; what the server computes (search, locks, object creation)
  is a parameter of every command.
\<close>

datatype exn =
    KeyError string
  | AttributeError string
  | ValueError string
  | PermissionsError string

text \<open>A creation timestamp, field by field as Python's \<^verbatim>\<open>datetime\<close> has it.\<close>

record datetime =
  year :: nat
  month :: nat
  day :: nat
  hour :: nat
  minute :: nat
  second :: nat
  microsecond :: nat

datatype model = PlayerDB | ObjectDB

text \<open>
  The attribute stores an object can expose, by the keys the sources use for them:
  \<^verbatim>\<open>wizh\<close> (\<^verbatim>\<open>WizHiddenAttributeHandler\<close>), \<^verbatim>\<open>usrh\<close>
  (\<^verbatim>\<open>UserHiddenAttributeHandler\<close>), \<^verbatim>\<open>usr\<close> (\<^verbatim>\<open>UserAttributeHandler\<close>, the
  default), \<^verbatim>\<open>pub\<close>, and the empty key (the server's own \<^verbatim>\<open>AttributeHandler\<close>,
  \<^verbatim>\<open>.db\<close>).
\<close>

datatype handler = WizHidden | UserHidden | User | Public | Raw

text \<open>
  One row. \<^verbatim>\<open>bases\<close> lists the typeclass paths the row's class inherits from
  (what \<^verbatim>\<open>inherits_from\<close> reads); \<^verbatim>\<open>player\<close>, \<^verbatim>\<open>location\<close> and
  \<^verbatim>\<open>destination\<close> are foreign keys. A row of \<^verbatim>\<open>PlayerDB\<close> has no attribute
  \<^verbatim>\<open>player\<close> (\<^verbatim>\<open>hasattr\<close> is false for it) and its \<^verbatim>\<open>location\<close> reads as
  \<^verbatim>\<open>None\<close>.
\<close>

record entity =
  model :: model
  eid :: int
  name :: string
  typeclass_path :: string
  bases :: "string list"
  date_created :: datetime
  player :: "int option"
  location :: "int option"
  destination :: "int option"
  aliases :: "string list"
  last_created :: "int option"
  handlers :: "handler list"

record world =
  rows :: "entity list"
  sent :: "string list"

text \<open>What \<^verbatim>\<open>quota_check\<close> returns: an integer or \<^verbatim>\<open>float('inf')\<close>.\<close>

datatype pynum = Infinite | Finite int

record host =
  search :: "world \<Rightarrow> entity \<Rightarrow> string \<Rightarrow> entity option"
  check_lockstring :: "entity \<Rightarrow> string \<Rightarrow> bool"
  ansi_clean :: "string \<Rightarrow> string"
  create_object_host ::
    "string \<Rightarrow> string list \<Rightarrow> entity option \<Rightarrow> entity option \<Rightarrow> string \<Rightarrow> world
      \<Rightarrow> entity option \<times> world"

text \<open>
  The functions the commands import from \<^verbatim>\<open>evennia.contrib.collab.perms\<close>. That
  module is not among the sources, so the commands are verified for every
  implementation of it.
\<close>

record perms =
  quota_check :: "world \<Rightarrow> entity option \<Rightarrow> string \<Rightarrow> pynum"
  collab_check :: "world \<Rightarrow> entity \<Rightarrow> entity \<Rightarrow> string list option \<Rightarrow> bool"
  is_owner :: "world \<Rightarrow> entity \<Rightarrow> entity \<Rightarrow> bool \<Rightarrow> bool"
  get_owner :: "world \<Rightarrow> entity \<Rightarrow> bool \<Rightarrow> entity option"
  set_owner :: "entity \<Rightarrow> entity \<Rightarrow> world \<Rightarrow> world"

record type_conf =
  typeclass :: string
  create_lock :: string
  quota :: int

record settings =
  COLLAB_TYPES :: "(string \<times> type_conf) list"
  COLLAB_DEFAULT_TYPE :: string
  COLLAB_EXIT_TYPE :: string
  COLLAB_ROOM_TYPE :: string
  BASE_CHARACTER_TYPECLASS :: string
  BASE_PLAYER_TYPECLASS :: string

text \<open>A parsed command, as \<^verbatim>\<open>MuxCommand.parse\<close> leaves it.\<close>

record command =
  caller :: entity
  switches :: "string list"
  args :: string
  lhs :: string
  rhs :: "string option"

subsection \<open>Python helpers\<close>

definition digit_char :: "nat \<Rightarrow> char" where
  "digit_char n = ''0123456789'' ! n"

function str_nat :: "nat \<Rightarrow> string" where
  "str_nat n = (if n < 10 then [digit_char n] else str_nat (n div 10) @ [digit_char (n mod 10)])"
  by pat_completeness auto
termination
  by (relation "measure id") auto

declare str_nat.simps [simp del]

definition str_int :: "int \<Rightarrow> string" where
  "str_int i = (if i < 0 then CHR ''-'' # str_nat (nat (- i)) else str_nat (nat i))"

definition quoted :: "string \<Rightarrow> string" where
  "quoted s = CHR 0x27 # s @ [CHR 0x27]"

text \<open>\<^verbatim>\<open>a == b\<close> on two rows: the same table and the same primary key.\<close>

definition py_eq :: "entity \<Rightarrow> entity \<Rightarrow> bool" where
  "py_eq a b = (model a = model b \<and> eid a = eid b)"

fun py_eq_opt :: "entity option \<Rightarrow> entity option \<Rightarrow> bool" where
  "py_eq_opt None None = True"
| "py_eq_opt (Some a) (Some b) = py_eq a b"
| "py_eq_opt _ _ = False"

definition msg :: "string \<Rightarrow> world \<Rightarrow> world" where
  "msg t w = w\<lparr>sent := sent w @ [t]\<rparr>"

definition find_row :: "world \<Rightarrow> model \<Rightarrow> int \<Rightarrow> entity option" where
  "find_row w m i = find (\<lambda>e. model e = m \<and> eid e = i) (rows w)"

definition hasattr_player :: "entity \<Rightarrow> bool" where
  "hasattr_player e = (model e = ObjectDB)"

text \<open>\<^verbatim>\<open>getattr(e, 'player', e)\<close>.\<close>

definition getattr_player :: "world \<Rightarrow> entity \<Rightarrow> entity option" where
  "getattr_player w e =
     (if hasattr_player e
      then (case player e of None \<Rightarrow> None | Some i \<Rightarrow> find_row w PlayerDB i)
      else Some e)"

definition attr_location :: "world \<Rightarrow> entity \<Rightarrow> entity option" where
  "attr_location w e =
     (case location e of None \<Rightarrow> None | Some i \<Rightarrow> find_row w ObjectDB i)"


text \<open>\<^verbatim>\<open>target.delete()\<close>: the row is gone.\<close>

definition delete :: "entity \<Rightarrow> world \<Rightarrow> world" where
  "delete t w = w\<lparr>rows := filter (\<lambda>e. \<not> py_eq e t) (rows w)\<rparr>"

section \<open>CmdDestroy\<close>

definition CmdDestroy_func :: "host \<Rightarrow> perms \<Rightarrow> command \<Rightarrow> world \<Rightarrow> world" where
  "CmdDestroy_func H P c w =
     (case search H w (caller c) (args c) of
        None \<Rightarrow> w
      | Some target \<Rightarrow>
          if \<not> collab_check P w (caller c) target (Some [''delete''])
          then msg ''{rYou don't have permission to destroy that.{n'' w
          else if py_eq (caller c) target
          then msg ''{rSuicide is not the answer.{n'' w
          else
            let owner = py_eq_opt (get_owner P w target True) (getattr_player w (caller c))
            in if \<not> owner \<and> ''force'' \<notin> set (switches c)
               then msg (''{rYou don't own '' @ name target
                         @ ''. If you really want to delete it, use the /force switch.'') w
               else msg (''{y'' @ name target @ ''(#'' @ str_int (eid target)
                         @ '') destroyed.{n'') (delete target w))"

section \<open>CmdChown\<close>




section \<open>BaseCreationCommand and its subclasses\<close>

datatype creation = CmdCreate | CmdDig | CmdOpen

fun split_on :: "char \<Rightarrow> string \<Rightarrow> string list" where
  "split_on d [] = [[]]"
| "split_on d (x # xs) =
     (if x = d then [] # split_on d xs
      else (case split_on d xs of [] \<Rightarrow> [[x]] | p # ps \<Rightarrow> (x # p) # ps))"

definition is_space :: "char \<Rightarrow> bool" where
  "is_space ch = (ch \<in> set [CHR '' '', CHR 0x09, CHR 0x0A, CHR 0x0B, CHR 0x0C, CHR 0x0D])"

definition strip :: "string \<Rightarrow> string" where
  "strip s = rev (dropWhile is_space (rev (dropWhile is_space s)))"

definition pre_load :: "settings \<Rightarrow> creation \<Rightarrow> string list \<Rightarrow> string list" where
  "pre_load S k sw =
     (case k of
        CmdCreate \<Rightarrow> sw
      | CmdDig \<Rightarrow> COLLAB_ROOM_TYPE S # sw
      | CmdOpen \<Rightarrow> COLLAB_EXIT_TYPE S # sw)"

definition not_permitted :: "settings \<Rightarrow> creation \<Rightarrow> string list" where
  "not_permitted S k =
     (case k of
        CmdCreate \<Rightarrow> [COLLAB_EXIT_TYPE S, COLLAB_ROOM_TYPE S]
      | CmdDig \<Rightarrow> []
      | CmdOpen \<Rightarrow> [])"

definition base_get_location :: "world \<Rightarrow> command \<Rightarrow> exn + entity option" where
  "base_get_location w c =
     (case attr_location w (caller c) of
        None \<Rightarrow>
          if hasattr_player (caller c) then Inr (Some (caller c))
          else Inl (ValueError ''{rYou aren't anywhere. Where would you put it?{n'')
      | Some l \<Rightarrow> Inr (Some l))"

definition get_location :: "creation \<Rightarrow> world \<Rightarrow> command \<Rightarrow> exn + entity option" where
  "get_location k w c =
     (case k of
        CmdCreate \<Rightarrow>
          if hasattr_player (caller c) then Inr (Some (caller c)) else base_get_location w c
      | CmdDig \<Rightarrow> Inr None
      | CmdOpen \<Rightarrow> Inr (attr_location w (caller c)))"

definition get_destination :: "host \<Rightarrow> world \<Rightarrow> command \<Rightarrow> exn + entity option" where
  "get_destination H w c =
     (case rhs c of
        None \<Rightarrow> Inr None
      | Some r \<Rightarrow>
          if r = [] then Inr None
          else (case search H w (caller c) r of
                  None \<Rightarrow> Inl (ValueError [])
                | Some d \<Rightarrow> Inr (Some d)))"

definition get_key_and_aliases :: "host \<Rightarrow> command \<Rightarrow> exn + string \<times> string list" where
  "get_key_and_aliases H c =
     (if lhs c = [] then Inl (ValueError ''{rYou must specify a name.{n'')
      else (case map (\<lambda>n. ansi_clean H (strip n)) (split_on (CHR '';'') (lhs c)) of
              [] \<Rightarrow> Inl (ValueError [])
            | key # als \<Rightarrow> Inr (key, als)))"

definition perm_check ::
    "perms \<Rightarrow> world \<Rightarrow> command \<Rightarrow> entity option \<Rightarrow> entity option \<Rightarrow> exn + unit" where
  "perm_check P w c dest loc =
     (case (case dest of
              None \<Rightarrow> Inr ()
            | Some d \<Rightarrow>
                if \<not> collab_check P w (caller c) d (Some [''link_to''])
                then Inl (PermissionsError (''{rYou don't have permission to link to ''
                                            @ quoted (name d) @ ''.{n''))
                else Inr ()) of
        Inl e \<Rightarrow> Inl e
      | Inr u \<Rightarrow>
          (case loc of
             None \<Rightarrow> Inr ()
           | Some l \<Rightarrow>
               if \<not> collab_check P w (caller c) l (Some [''create_in''])
               then Inl (PermissionsError (''{rYou can't create something in ''
                                           @ quoted (name l) @ ''.{n''))
               else Inr ()))"

text \<open>
  \<^verbatim>\<open>create_object\<close>: a \<^verbatim>\<open>ValueError\<close> of one of the three getters is sent to
  the caller and ends the method with \<^verbatim>\<open>None\<close>; a \<^verbatim>\<open>PermissionsError\<close> of
  \<^verbatim>\<open>perm_check\<close> is sent to the caller and the method goes on to create the
  object, as the source does.
\<close>

definition create_object ::
    "settings \<Rightarrow> host \<Rightarrow> perms \<Rightarrow> creation \<Rightarrow> command \<Rightarrow> string \<Rightarrow> world
      \<Rightarrow> exn + entity option \<times> world" where
  "create_object S H P k c create_type w =
     (case map_of (COLLAB_TYPES S) create_type of
        None \<Rightarrow> Inl (KeyError create_type)
      | Some conf \<Rightarrow>
          (case get_key_and_aliases H c of
             Inl (ValueError m) \<Rightarrow> Inr (None, msg m w)
           | Inl e \<Rightarrow> Inl e
           | Inr (key, als) \<Rightarrow>
               (case get_destination H w c of
                  Inl (ValueError m) \<Rightarrow> Inr (None, msg m w)
                | Inl e \<Rightarrow> Inl e
                | Inr dest \<Rightarrow>
                    (case get_location k w c of
                       Inl (ValueError m) \<Rightarrow> Inr (None, msg m w)
                     | Inl e \<Rightarrow> Inl e
                     | Inr loc \<Rightarrow>
                         (let w1 = (case perm_check P w c dest loc of
                                      Inl (PermissionsError m) \<Rightarrow> msg m w
                                    | _ \<Rightarrow> w)
                          in Inr (create_object_host H key als loc dest (typeclass conf) w1))))))"

definition success_message :: "creation \<Rightarrow> string \<Rightarrow> entity \<Rightarrow> string" where
  "success_message k create_type thing =
     (case k of
        CmdDig \<Rightarrow>
          ''{gRoom '' @ quoted (name thing) @ '' created with DBREF #'' @ str_int (eid thing)
          @ ''. Type @tel me=#'' @ str_int (eid thing) @ '' to visit it.''
      | _ \<Rightarrow>
          ''{gObject '' @ quoted (name thing) @ '' of type '' @ quoted create_type
          @ '' created with DBref #'' @ str_int (eid thing) @ ''.{n'')"

definition set_last_created :: "entity \<Rightarrow> entity \<Rightarrow> world \<Rightarrow> world" where
  "set_last_created a thing w =
     w\<lparr>rows := map (\<lambda>e. if py_eq e a then e\<lparr>last_created := Some (eid thing)\<rparr> else e) (rows w)\<rparr>"

text \<open>\<^verbatim>\<open>not quota_check(...)\<close>: only the integer zero is false.\<close>

definition falsy :: "pynum \<Rightarrow> bool" where
  "falsy q = (q = Finite 0)"

text \<open>
  \<^verbatim>\<open>BaseCreationCommand.func\<close>. The lock of the type is looked up in
  \<^verbatim>\<open>COLLAB_TYPES\<close> (line 111) before the type is tested for membership
  (line 116); the lookup of a key the table lacks raises \<^verbatim>\<open>KeyError\<close>.
\<close>

definition func :: "settings \<Rightarrow> host \<Rightarrow> perms \<Rightarrow> creation \<Rightarrow> command \<Rightarrow> world \<Rightarrow> exn + world" where
  "func S H P k c w =
     (let sw = pre_load S k (switches c);
          create_type = (case sw of [] \<Rightarrow> COLLAB_DEFAULT_TYPE S | t # ts \<Rightarrow> t)
      in if create_type \<in> set (not_permitted S k)
         then Inr (msg (''{rType '' @ quoted create_type
                        @ '' cannot be created with this command.{n'') w)
         else
           (case map_of (COLLAB_TYPES S) create_type of
              None \<Rightarrow> Inl (KeyError create_type)
            | Some conf \<Rightarrow>
                if \<not> check_lockstring H (caller c) (create_lock conf)
                then Inr (msg (''{rYou don't have permission to create objects of type ''
                               @ quoted create_type @ ''.{n'') w)
                else if create_type \<notin> set (map fst (COLLAB_TYPES S))
                then Inr (msg (''{rType '' @ quoted create_type @ '' is not recognized.{n'') w)
                else if falsy (quota_check P w (getattr_player w (caller c)) create_type)
                then Inr (msg (''{rYou have already met your quota for type ''
                               @ quoted create_type @ ''.{n'') w)
                else
                  (case create_object S H P k (c\<lparr>switches := sw\<rparr>) create_type w of
                     Inl e \<Rightarrow> Inl e
                   | Inr (None, w1) \<Rightarrow> Inr w1
                   | Inr (Some thing, w1) \<Rightarrow>
                       Inr (msg (success_message k create_type thing)
                              (set_owner P (caller c) thing
                                 (set_last_created (caller c) thing w1))))))"

section \<open>The permission module, as far as the spec and the tests give it\<close>

text \<open>
  \<^verbatim>\<open>evennia/contrib/collab/perms.py\<close> is not among the sources; its tests
  (\<^verbatim>\<open>test_perms.py\<close>) are. The three functions below are reconstructed from the
  spec, and checked against what the tests assert.
\<close>

subsection \<open>Ownership tags\<close>

datatype json = JInt int | JString string | JObject "(string \<times> json) list"

record owner_tag =
  tag_id :: int
  tag_date :: datetime
  tag_cls :: string

definition pad :: "nat \<Rightarrow> nat \<Rightarrow> string" where
  "pad width n = replicate (width - length (str_nat n)) (CHR ''0'') @ str_nat n"

text \<open>\<^verbatim>\<open>strftime("%Y-%m-%d %H:%M:%S")\<close>, every field at its full width.\<close>

definition strftime :: "datetime \<Rightarrow> string" where
  "strftime d =
     pad 4 (year d) @ ''-'' @ pad 2 (month d) @ ''-'' @ pad 2 (day d) @ '' ''
     @ pad 2 (hour d) @ '':'' @ pad 2 (minute d) @ '':'' @ pad 2 (second d)"

definition digit_val :: "char \<Rightarrow> nat option" where
  "digit_val ch =
     (if ch \<in> set ''0123456789'' then Some (of_char ch - 48) else None)"

fun parse_digits :: "nat \<Rightarrow> string \<Rightarrow> nat option" where
  "parse_digits acc [] = Some acc"
| "parse_digits acc (ch # cs) =
     (case digit_val ch of None \<Rightarrow> None | Some v \<Rightarrow> parse_digits (10 * acc + v) cs)"

definition parse_nat :: "string \<Rightarrow> nat option" where
  "parse_nat s = (if s = [] then None else parse_digits 0 s)"

definition is_leap :: "nat \<Rightarrow> bool" where
  "is_leap y = (y mod 4 = 0 \<and> (y mod 100 \<noteq> 0 \<or> y mod 400 = 0))"

definition days_in_month :: "nat \<Rightarrow> nat \<Rightarrow> nat" where
  "days_in_month y m =
     (if m = 2 then (if is_leap y then 29 else 28)
      else if m \<in> set [4, 6, 9, 11] then 30 else 31)"

text \<open>The values Python's \<^verbatim>\<open>datetime\<close> constructor accepts.\<close>

definition valid_datetime :: "datetime \<Rightarrow> bool" where
  "valid_datetime d =
     (1 \<le> year d \<and> year d \<le> 9999 \<and> 1 \<le> month d \<and> month d \<le> 12
      \<and> 1 \<le> day d \<and> day d \<le> days_in_month (year d) (month d)
      \<and> hour d < 24 \<and> minute d < 60 \<and> second d < 60 \<and> microsecond d < 1000000)"

text \<open>
  \<^verbatim>\<open>datetime.strptime(s, "%Y-%m-%d %H:%M:%S")\<close>, as the test decodes the date, on
  the fixed-width layout that \<^verbatim>\<open>strftime\<close> writes; \<^verbatim>\<open>None\<close> is its
  \<^verbatim>\<open>ValueError\<close>.
\<close>

definition strptime :: "string \<Rightarrow> datetime option" where
  "strptime s =
     (if length s = 19 \<and> s ! 4 = CHR ''-'' \<and> s ! 7 = CHR ''-'' \<and> s ! 10 = CHR '' ''
         \<and> s ! 13 = CHR '':'' \<and> s ! 16 = CHR '':''
      then
        (case (parse_nat (take 4 s), parse_nat (take 2 (drop 5 s)),
               parse_nat (take 2 (drop 8 s)), parse_nat (take 2 (drop 11 s)),
               parse_nat (take 2 (drop 14 s)), parse_nat (take 2 (drop 17 s))) of
           (Some y, Some mo, Some dd, Some h, Some mi, Some se) \<Rightarrow>
             (let d = \<lparr>year = y, month = mo, day = dd, hour = h, minute = mi, second = se,
                       microsecond = 0\<rparr>
              in if valid_datetime d then Some d else None)
         | _ \<Rightarrow> None)
      else None)"

text \<open>
  Modelled from the spec: \<^verbatim>\<open>perms.owner_tag_key\<close> is missing from the sources.
  "Ownership tag encoding: serialize {id: actor numeric id, date: creation
  timestamp, second precision, no microseconds, cls: "player"|"character"}". The
  JSON text is kept as the value it parses to (\<^verbatim>\<open>json.loads\<close> of
  \<^verbatim>\<open>json.dumps\<close>); the date format is the one \<^verbatim>\<open>test_owner_tag_key\<close> reads.
\<close>

definition owner_tag_key :: "entity \<Rightarrow> json" where
  "owner_tag_key a =
     JObject [(''id'', JInt (eid a)),
              (''date'', JString (strftime (date_created a))),
              (''cls'', JString (if model a = PlayerDB then ''player'' else ''character''))]"

text \<open>
  Decoding as \<^verbatim>\<open>test_owner_tag_key\<close> does it: \<^verbatim>\<open>tag['id']\<close>,
  \<^verbatim>\<open>strptime(tag['date'], ...)\<close>, \<^verbatim>\<open>tag['cls']\<close>.
\<close>

definition decode_owner_tag :: "json \<Rightarrow> owner_tag option" where
  "decode_owner_tag j =
     (case j of
        JObject kv \<Rightarrow>
          (case (map_of kv ''id'', map_of kv ''date'', map_of kv ''cls'') of
             (Some (JInt i), Some (JString ds), Some (JString cl)) \<Rightarrow>
               (case strptime ds of
                  None \<Rightarrow> None
                | Some d \<Rightarrow> Some \<lparr>tag_id = i, tag_date = d, tag_cls = cl\<rparr>)
           | _ \<Rightarrow> None)
      | _ \<Rightarrow> None)"

subsection \<open>Attribute names\<close>

text \<open>
  Modelled from the spec: the configured prefix table is missing from the sources.
  "a configured prefix table entry (e.g. wizh_, usrh_)".
\<close>

definition COLLAB_PREFIXES :: "(string \<times> handler) list" where
  "COLLAB_PREFIXES = [(''wizh_'', WizHidden), (''usrh_'', UserHidden)]"

definition startswith :: "string \<Rightarrow> string \<Rightarrow> bool" where
  "startswith s p = (take (length p) s = p)"

text \<open>
  Modelled from the spec: \<^verbatim>\<open>perms.prefix_check\<close> is missing from the sources.
  "Resolution rule, in order: (a) if the name matches a configured prefix table
  entry and the object exposes that handler, strip the prefix and select that
  handler; (b) else if the name starts with _, strip it and select the raw/system
  store; (c) else select the default public-attribute handler. [...] fails with a
  lookup error only if the object lacks any attribute storage capability at all."
\<close>

definition prefix_check :: "(string \<times> handler) list \<Rightarrow> entity \<Rightarrow> string \<Rightarrow> exn + string \<times> handler" where
  "prefix_check tbl obj nm =
     (case find (\<lambda>(p, h). startswith nm p \<and> h \<in> set (handlers obj)) tbl of
        Some (p, h) \<Rightarrow> Inr (drop (length p) nm, h)
      | None \<Rightarrow>
          if handlers obj = [] then Inl (AttributeError ''db'')
          else if startswith nm ''_'' then Inr (drop 1 nm, Raw)
          else Inr (nm, User))"

subsection \<open>Attribute access\<close>

datatype access = Read | Write

datatype lock = Anyone | Controls | Immortals

text \<open>
  Modelled from the spec: the policy table \<^verbatim>\<open>COLLAB_PROPTYPE_PERMS\<close> is missing
  from the sources. Its rows are the spec's, except where \<^verbatim>\<open>test_attr_check\<close>
  (\<^verbatim>\<open>test_perms.py\<close>, lines 158 to 185) asserts otherwise: for the empty key the
  test expects \<^verbatim>\<open>False\<close> of a player who owns the object, for reading and for
  writing, and for \<^verbatim>\<open>pub\<close> it expects \<^verbatim>\<open>True\<close> of a player who does not.
\<close>

definition COLLAB_PROPTYPE_PERMS :: "handler \<Rightarrow> access \<Rightarrow> lock" where
  "COLLAB_PROPTYPE_PERMS h a =
     (case h of
        WizHidden \<Rightarrow> Immortals
      | UserHidden \<Rightarrow> Controls
      | User \<Rightarrow> (case a of Read \<Rightarrow> Anyone | Write \<Rightarrow> Controls)
      | Public \<Rightarrow> Anyone
      | Raw \<Rightarrow> Immortals)"

text \<open>
  Modelled from the spec: the same table with every row as the spec words it. The
  raw/system row is "owner or immortal"; the spec has one row, "public/default",
  for what the sources keep under the two keys \<^verbatim>\<open>usr\<close> and \<^verbatim>\<open>pub\<close>.
\<close>

definition spec_table :: "handler \<Rightarrow> access \<Rightarrow> lock" where
  "spec_table h a =
     (case h of
        WizHidden \<Rightarrow> Immortals
      | UserHidden \<Rightarrow> Controls
      | User \<Rightarrow> (case a of Read \<Rightarrow> Anyone | Write \<Rightarrow> Controls)
      | Public \<Rightarrow> (case a of Read \<Rightarrow> Anyone | Write \<Rightarrow> Controls)
      | Raw \<Rightarrow> Controls)"

text \<open>
  Modelled from the spec: \<^verbatim>\<open>perms.attr_check\<close> is missing from the sources.
  "Immortal tier always passes every check (global bypass), checked via a
  privilege predicate, not identity": the predicate \<^verbatim>\<open>immortal\<close> and the
  ownership test \<^verbatim>\<open>controls\<close> are injected. The table is an argument, so that
  the spec's table and the one the test needs can be run side by side.
\<close>

definition attr_check_with ::
    "(handler \<Rightarrow> access \<Rightarrow> lock) \<Rightarrow> (entity \<Rightarrow> bool) \<Rightarrow> (entity \<Rightarrow> entity \<Rightarrow> bool)
      \<Rightarrow> entity \<Rightarrow> entity \<Rightarrow> access \<Rightarrow> handler \<Rightarrow> bool" where
  "attr_check_with tbl immortal controls actor obj a h =
     (immortal actor
      \<or> (case tbl h a of
            Anyone \<Rightarrow> True
          | Controls \<Rightarrow> controls actor obj
          | Immortals \<Rightarrow> False))"

definition attr_check ::
    "(entity \<Rightarrow> bool) \<Rightarrow> (entity \<Rightarrow> entity \<Rightarrow> bool) \<Rightarrow> entity \<Rightarrow> entity \<Rightarrow> access \<Rightarrow> handler \<Rightarrow> bool" where
  "attr_check = attr_check_with COLLAB_PROPTYPE_PERMS"

text \<open>
  \<^verbatim>\<open>AttrTest.perm_checks\<close> and the three rounds of \<^verbatim>\<open>AttrTest.test_attr_check\<close>,
  for an implementation \<^verbatim>\<open>ac\<close> of \<^verbatim>\<open>attr_check\<close>: the immortal player on
  \<^verbatim>\<open>obj1\<close>, the second player on \<^verbatim>\<open>obj1\<close> (not its owner), the second player on
  \<^verbatim>\<open>obj2\<close> after \<^verbatim>\<open>set_owner(self.player2, self.obj2)\<close>.
\<close>

definition checks :: "(access \<times> handler) list" where
  "checks = [(Read, WizHidden), (Write, WizHidden), (Read, Raw), (Write, Raw),
             (Read, User), (Write, User), (Read, Public), (Write, Public)]"

definition perm_checks ::
    "(entity \<Rightarrow> entity \<Rightarrow> access \<Rightarrow> handler \<Rightarrow> bool) \<Rightarrow> entity \<Rightarrow> bool list \<Rightarrow> entity \<Rightarrow> bool" where
  "perm_checks ac pl results obj = (map (\<lambda>(a, h). ac pl obj a h) checks = results)"

section \<open>A concrete world to run the commands on\<close>

text \<open>
  The rows the repository's tests work with (\<^verbatim>\<open>self.player\<close>, an immortal;
  \<^verbatim>\<open>self.player2\<close>; their characters; two objects), a search by name, and a
  stand-in for the permission module that writes every \<^verbatim>\<open>set_owner\<close> call it
  receives to the output, so that a run shows whom the command installed. The
  settings (\<^verbatim>\<open>collab_settings\<close> is not among the sources) are examples.
\<close>

definition test_date :: datetime where
  "test_date = \<lparr>year = 2014, month = 5, day = 4, hour = 6, minute = 2, second = 45,
                 microsecond = 83\<rparr>"

definition S0 :: settings where
  "S0 = \<lparr>COLLAB_TYPES =
            [(''object'', \<lparr>typeclass = ''typeclasses.objects.Object'',
                           create_lock = ''perm(Builders)'', quota = 2\<rparr>),
             (''room'', \<lparr>typeclass = ''typeclasses.rooms.Room'',
                         create_lock = ''perm(Builders)'', quota = 2\<rparr>),
             (''exit'', \<lparr>typeclass = ''typeclasses.exits.Exit'',
                         create_lock = ''perm(Builders)'', quota = 2\<rparr>)],
          COLLAB_DEFAULT_TYPE = ''object'',
          COLLAB_EXIT_TYPE = ''exit'',
          COLLAB_ROOM_TYPE = ''room'',
          BASE_CHARACTER_TYPECLASS = ''typeclasses.characters.Character'',
          BASE_PLAYER_TYPECLASS = ''typeclasses.players.Player''\<rparr>"

definition mk_row :: "model \<Rightarrow> int \<Rightarrow> string \<Rightarrow> string \<Rightarrow> int option \<Rightarrow> entity" where
  "mk_row m i n tc p =
     \<lparr>model = m, eid = i, name = n, typeclass_path = tc, bases = [tc],
      date_created = test_date, player = p, location = None, destination = None,
      aliases = [], last_created = None,
      handlers = [WizHidden, UserHidden, User, Public, Raw]\<rparr>"

definition player1 :: entity where
  "player1 = mk_row PlayerDB 1 ''TestPlayer'' ''typeclasses.players.Player'' None"

definition player2 :: entity where
  "player2 = mk_row PlayerDB 2 ''TestPlayer2'' ''typeclasses.players.Player'' None"

definition char1 :: entity where
  "char1 = mk_row ObjectDB 1 ''Char'' ''typeclasses.characters.Character'' (Some 1)"

definition char2 :: entity where
  "char2 = mk_row ObjectDB 2 ''Char2'' ''typeclasses.characters.Character'' (Some 2)"

definition obj1 :: entity where
  "obj1 = mk_row ObjectDB 3 ''Obj'' ''typeclasses.objects.Object'' None"

definition obj2 :: entity where
  "obj2 = mk_row ObjectDB 4 ''Obj2'' ''typeclasses.objects.Object'' None"

definition w0 :: world where
  "w0 = \<lparr>rows = [player1, player2, char1, char2, obj1, obj2], sent = []\<rparr>"

definition H0 :: host where
  "H0 = \<lparr>search = (\<lambda>w a s. find (\<lambda>e. name e = s) (rows w)),
          check_lockstring = (\<lambda>a l. True),
          ansi_clean = (\<lambda>s. s),
          create_object_host =
            (\<lambda>key als loc dest tc w.
               let e = (mk_row ObjectDB (int (length (rows w)) + 1) key tc None)
                         \<lparr>aliases := als, location := map_option eid loc,
                          destination := map_option eid dest\<rparr>
               in (Some e, w\<lparr>rows := rows w @ [e]\<rparr>))\<rparr>"

text \<open>
  The test's privileges and ownership: \<^verbatim>\<open>self.player\<close> is an immortal, and
  \<^verbatim>\<open>self.player2\<close> owns \<^verbatim>\<open>obj2\<close> (and nothing else) in the third round.
\<close>

definition immortal0 :: "entity \<Rightarrow> bool" where
  "immortal0 a = py_eq a player1"

definition controls0 :: "entity \<Rightarrow> entity \<Rightarrow> bool" where
  "controls0 a t = (py_eq a player2 \<and> py_eq t obj2)"

definition test_attr_check :: "(entity \<Rightarrow> entity \<Rightarrow> access \<Rightarrow> handler \<Rightarrow> bool) \<Rightarrow> bool" where
  "test_attr_check ac =
     (perm_checks ac player1 [True, True, True, True, True, True, True, True] obj1
      \<and> perm_checks ac player2 [False, False, False, False, True, False, True, True] obj1
      \<and> perm_checks ac player2 [False, False, False, False, True, True, True, True] obj2)"

text \<open>\<^verbatim>\<open>collab_check\<close> of the stand-in passes for the immortal's character only.\<close>

definition P0 :: perms where
  "P0 = \<lparr>quota_check = (\<lambda>w a t. Finite 1),
          collab_check = (\<lambda>w a t l. name a = ''Char''),
          is_owner = (\<lambda>w a t cc. False),
          get_owner = (\<lambda>w t pc. None),
          set_owner = (\<lambda>a t w. msg (''set_owner('' @ name a @ '', '' @ name t @ '')'') w)\<rparr>"

section \<open>Properties of the commands\<close>

lemmas fixture_defs =
  S0_def H0_def P0_def w0_def player1_def player2_def char1_def char2_def obj1_def obj2_def
  mk_row_def test_date_def

subsection \<open>Creation: a type the table lacks\<close>

text \<open>
  Whatever the command, a type that is neither forbidden to it nor a key of
  \<^verbatim>\<open>COLLAB_TYPES\<close> ends \<^verbatim>\<open>func\<close> with \<^verbatim>\<open>KeyError\<close>: nothing is sent to the
  caller.
\<close>

lemma func_KeyError:
  assumes "create_type = (case pre_load S k (switches c) of
                            [] \<Rightarrow> COLLAB_DEFAULT_TYPE S | t # ts \<Rightarrow> t)"
    and "create_type \<notin> set (not_permitted S k)"
    and "map_of (COLLAB_TYPES S) create_type = None"
  shows "func S H P k c w = Inl (KeyError create_type)"
  using assms by (simp add: func_def Let_def)

text \<open>
  The membership test of line 116 is only reached after the lookup of line 111 has
  succeeded, and then it cannot fail: its message is never sent.
\<close>

lemma not_recognized_unreachable:
  "map_of (COLLAB_TYPES S) create_type = Some conf \<Longrightarrow>
   create_type \<in> set (map fst (COLLAB_TYPES S))"
  by (auto dest: map_of_SomeD intro: rev_image_eqI)

text \<open>
  Claim C7 says that a creation command whose type key is not in the configured
  table ends with the message \<^verbatim>\<open>Type '...' is not recognized\<close> and lets no
  exception out. On \<^verbatim>\<open>@create/gizmo thing\<close>, with \<^verbatim>\<open>gizmo\<close> not a key of the
  table, the command raises \<^verbatim>\<open>KeyError\<close> instead.
\<close>

theorem create_unknown_type_raises:
  "func S0 H0 P0 CmdCreate
     \<lparr>caller = char1, switches = [''gizmo''], args = ''thing'', lhs = ''thing'', rhs = None\<rparr> w0
   = Inl (KeyError ''gizmo'')"
  by (simp add: func_def pre_load_def not_permitted_def S0_def)

subsection \<open>@chown\<close>



subsection \<open>@destroy\<close>

text \<open>
  Claim C9: the target is deleted only if
  \<^verbatim>\<open>collab_check(caller, target, locks=['delete'])\<close> is true; \<^verbatim>\<open>/force\<close> does
  not get past that check, it only replaces the ownership test that follows.
  The rows change only when the lock check passed; when it fails the state is
  the old one with the denial sent, whatever the switches; when it passes (and
  the target is not the caller) \<^verbatim>\<open>/force\<close> deletes, owner or not; and
  without \<^verbatim>\<open>/force\<close> a caller whose account is not the true owner is refused.
\<close>

theorem CmdDestroy_lock:
  "(rows (CmdDestroy_func H P c w) \<noteq> rows w \<longrightarrow>
      (\<exists>t. search H w (caller c) (args c) = Some t
           \<and> collab_check P w (caller c) t (Some [''delete''])))
   \<and> (\<forall>t. search H w (caller c) (args c) = Some t
           \<and> \<not> collab_check P w (caller c) t (Some [''delete''])
        \<longrightarrow> CmdDestroy_func H P c w = msg ''{rYou don't have permission to destroy that.{n'' w)
   \<and> (\<forall>t. search H w (caller c) (args c) = Some t
           \<and> collab_check P w (caller c) t (Some [''delete''])
           \<and> \<not> py_eq (caller c) t \<and> ''force'' \<in> set (switches c)
        \<longrightarrow> CmdDestroy_func H P c w
            = msg (''{y'' @ name t @ ''(#'' @ str_int (eid t) @ '') destroyed.{n'') (delete t w))
   \<and> (\<forall>t. search H w (caller c) (args c) = Some t
           \<and> collab_check P w (caller c) t (Some [''delete''])
           \<and> \<not> py_eq (caller c) t \<and> ''force'' \<notin> set (switches c)
           \<and> \<not> py_eq_opt (get_owner P w t True) (getattr_player w (caller c))
        \<longrightarrow> CmdDestroy_func H P c w
            = msg (''{rYou don't own '' @ name t
                   @ ''. If you really want to delete it, use the /force switch.'') w)"
  by (auto simp: CmdDestroy_func_def msg_def Let_def split: option.splits if_splits)

text \<open>
  \<^verbatim>\<open>@destroy/force Obj\<close> by a character that fails the lock: refused, nothing
  deleted. The same by a character that passes it: deleted. Without the switch
  that character, whose account does not own \<^verbatim>\<open>Obj\<close>, is refused.
\<close>

theorem CmdDestroy_lock_witness:
  "search H0 w0 char2 ''Obj'' = Some obj1
   \<and> \<not> collab_check P0 w0 char2 obj1 (Some [''delete''])
   \<and> CmdDestroy_func H0 P0
        \<lparr>caller = char2, switches = [''force''], args = ''Obj'', lhs = ''Obj'', rhs = None\<rparr> w0
      = msg ''{rYou don't have permission to destroy that.{n'' w0
   \<and> rows (msg ''{rYou don't have permission to destroy that.{n'' w0) = rows w0
   \<and> collab_check P0 w0 char1 obj1 (Some [''delete''])
   \<and> CmdDestroy_func H0 P0
        \<lparr>caller = char1, switches = [''force''], args = ''Obj'', lhs = ''Obj'', rhs = None\<rparr> w0
      = msg ''{yObj(#3) destroyed.{n'' (delete obj1 w0)
   \<and> rows (delete obj1 w0) = [player1, player2, char1, char2, obj2]
   \<and> CmdDestroy_func H0 P0
        \<lparr>caller = char1, switches = [], args = ''Obj'', lhs = ''Obj'', rhs = None\<rparr> w0
      = msg ''{rYou don't own Obj. If you really want to delete it, use the /force switch.'' w0"
  using CmdDestroy_lock [of H0 P0
      "\<lparr>caller = char2, switches = [''force''], args = ''Obj'', lhs = ''Obj'', rhs = None\<rparr>" w0]
    CmdDestroy_lock [of H0 P0
      "\<lparr>caller = char1, switches = [''force''], args = ''Obj'', lhs = ''Obj'', rhs = None\<rparr>" w0]
    CmdDestroy_lock [of H0 P0
      "\<lparr>caller = char1, switches = [], args = ''Obj'', lhs = ''Obj'', rhs = None\<rparr>" w0]
  by (simp add: fixture_defs msg_def delete_def py_eq_def getattr_player_def
                hasattr_player_def find_row_def str_int_def str_nat.simps digit_char_def)

text \<open>
  Claim C10: when the target found is the caller itself the command refuses with
  a message and deletes nothing, whoever the caller is and whatever the
  switches. The message is the refusal of line 291, or the denial of line 288
  when the caller fails the lock on itself.
\<close>

theorem CmdDestroy_self:
  assumes "search H w (caller c) (args c) = Some t" and "py_eq (caller c) t"
  shows "rows (CmdDestroy_func H P c w) = rows w
       \<and> (CmdDestroy_func H P c w = msg ''{rSuicide is not the answer.{n'' w
          \<or> CmdDestroy_func H P c w = msg ''{rYou don't have permission to destroy that.{n'' w)"
  using assms by (simp add: CmdDestroy_func_def msg_def)

theorem CmdDestroy_self_witness:
  "search H0 w0 char1 ''Char'' = Some char1 \<and> py_eq char1 char1
   \<and> rows (CmdDestroy_func H0 P0
        \<lparr>caller = char1, switches = [''force''], args = ''Char'', lhs = ''Char'', rhs = None\<rparr> w0)
      = rows w0
   \<and> CmdDestroy_func H0 P0
        \<lparr>caller = char1, switches = [''force''], args = ''Char'', lhs = ''Char'', rhs = None\<rparr> w0
      = msg ''{rSuicide is not the answer.{n'' w0"
  using CmdDestroy_self [of H0 w0
      "\<lparr>caller = char1, switches = [''force''], args = ''Char'', lhs = ''Char'', rhs = None\<rparr>"
      char1 P0]
  by (simp add: fixture_defs py_eq_def CmdDestroy_func_def msg_def)

section \<open>Properties of the permission module\<close>

subsection \<open>Decimal fields\<close>

lemma digit_cases:
  "d < 10 \<Longrightarrow>
   d = 0 \<or> d = 1 \<or> d = 2 \<or> d = 3 \<or> d = 4 \<or> d = 5 \<or> d = 6 \<or> d = 7 \<or> d = 8 \<or> d = (9::nat)"
  by arith

lemma digit_val_digit_char: "d < 10 \<Longrightarrow> digit_val (digit_char d) = Some d"
  using digit_cases [of d] by (auto simp: digit_val_def digit_char_def)

lemma parse_digits_snoc:
  "parse_digits acc (xs @ [ch]) =
     (case parse_digits acc xs of
        None \<Rightarrow> None
      | Some v \<Rightarrow> (case digit_val ch of None \<Rightarrow> None | Some d \<Rightarrow> Some (10 * v + d)))"
  by (induction xs arbitrary: acc) (auto split: option.splits)

lemma str_nat_unfold:
  "str_nat n = (if n < 10 then [digit_char n] else str_nat (n div 10) @ [digit_char (n mod 10)])"
  by (rule str_nat.simps)

lemma str_nat_nonempty: "str_nat n \<noteq> []"
  by (subst str_nat_unfold) simp

text \<open>Reading back what \<^verbatim>\<open>str_nat\<close> wrote gives the number.\<close>

lemma parse_digits_str_nat: "parse_digits 0 (str_nat n) = Some n"
proof (induction n rule: str_nat.induct)
  case (1 n)
  show ?case
  proof (cases "n < 10")
    case True
    then show ?thesis by (subst str_nat_unfold) (simp add: digit_val_digit_char)
  next
    case False
    have "str_nat n = str_nat (n div 10) @ [digit_char (n mod 10)]"
      using False by (subst str_nat_unfold) simp
    moreover have "parse_digits 0 (str_nat (n div 10)) = Some (n div 10)"
      using 1 False by simp
    ultimately show ?thesis
      by (simp only: parse_digits_snoc) (simp add: digit_val_digit_char)
  qed
qed

lemma parse_digits_zeros:
  "parse_digits 0 (replicate k (CHR ''0'') @ s) = parse_digits 0 s"
  by (induction k) (simp_all add: digit_val_def)

lemma parse_nat_pad: "parse_nat (pad w n) = Some n"
  by (simp add: parse_nat_def pad_def parse_digits_zeros parse_digits_str_nat str_nat_nonempty)

lemma length_str_nat: "0 < k \<Longrightarrow> n < 10 ^ k \<Longrightarrow> length (str_nat n) \<le> k"
proof (induction n arbitrary: k rule: str_nat.induct)
  case (1 n)
  show ?case
  proof (cases "n < 10")
    case True
    then show ?thesis using 1(2) by (subst str_nat_unfold) simp
  next
    case False
    have eq: "str_nat n = str_nat (n div 10) @ [digit_char (n mod 10)]"
      using False by (subst str_nat_unfold) simp
    from False 1(3) have k2: "1 < k"
      by (cases "k = 1") (use 1(2) in auto)
    then obtain j where j: "k = Suc j" "0 < j" by (cases k) auto
    have "n div 10 < 10 ^ j"
      using 1(3) j by (simp add: less_mult_imp_div_less mult.commute)
    then have "length (str_nat (n div 10)) \<le> j"
      using 1(1) [OF False j(2)] by simp
    then show ?thesis using eq j by simp
  qed
qed

lemma length_pad: "0 < w \<Longrightarrow> n < 10 ^ w \<Longrightarrow> length (pad w n) = w"
  using length_str_nat [of w n] by (simp add: pad_def)

subsection \<open>The date of a tag\<close>

lemma len4: "length xs = 4 \<Longrightarrow> \<exists>a b c d. xs = [a, b, c, d]"
  by (auto simp: length_Suc_conv numeral_eq_Suc)

lemma len2: "length xs = 2 \<Longrightarrow> \<exists>a b. xs = [a, b]"
  by (auto simp: length_Suc_conv numeral_eq_Suc)

lemma layout:
  assumes "length Y = 4" "length M = 2" "length D = 2" "length h = 2" "length m = 2"
    "length s = 2"
  defines "t \<equiv> Y @ ''-'' @ M @ ''-'' @ D @ '' '' @ h @ '':'' @ m @ '':'' @ s"
  shows "length t = 19" "t ! 4 = CHR ''-''" "t ! 7 = CHR ''-''" "t ! 10 = CHR '' ''"
    "t ! 13 = CHR '':''" "t ! 16 = CHR '':''"
    "take 4 t = Y" "take 2 (drop 5 t) = M" "take 2 (drop 8 t) = D"
    "take 2 (drop 11 t) = h" "take 2 (drop 14 t) = m" "take 2 (drop 17 t) = s"
proof -
  obtain y1 y2 y3 y4 where Y: "Y = [y1, y2, y3, y4]" using len4 [OF assms(1)] by blast
  obtain a1 a2 where M: "M = [a1, a2]" using len2 [OF assms(2)] by blast
  obtain b1 b2 where D: "D = [b1, b2]" using len2 [OF assms(3)] by blast
  obtain c1 c2 where h: "h = [c1, c2]" using len2 [OF assms(4)] by blast
  obtain d1 d2 where m: "m = [d1, d2]" using len2 [OF assms(5)] by blast
  obtain e1 e2 where s: "s = [e1, e2]" using len2 [OF assms(6)] by blast
  show "length t = 19" "t ! 4 = CHR ''-''" "t ! 7 = CHR ''-''" "t ! 10 = CHR '' ''"
    "t ! 13 = CHR '':''" "t ! 16 = CHR '':''"
    "take 4 t = Y" "take 2 (drop 5 t) = M" "take 2 (drop 8 t) = D"
    "take 2 (drop 11 t) = h" "take 2 (drop 14 t) = m" "take 2 (drop 17 t) = s"
    by (simp_all add: t_def Y M D h m s)
qed

lemma days_in_month_le: "days_in_month y m \<le> 31"
  by (simp add: days_in_month_def)

text \<open>Formatting a valid timestamp and parsing it back drops the microseconds, nothing else.\<close>

lemma strptime_strftime:
  assumes "valid_datetime d"
  shows "strptime (strftime d) = Some (d\<lparr>microsecond := 0\<rparr>)"
proof -
  have b: "year d < 10 ^ 4" "month d < 10 ^ 2" "day d < 10 ^ 2" "hour d < 10 ^ 2"
    "minute d < 10 ^ 2" "second d < 10 ^ 2"
    using assms days_in_month_le [of "year d" "month d"] by (auto simp: valid_datetime_def)
  have l: "length (pad 4 (year d)) = 4" "length (pad 2 (month d)) = 2"
    "length (pad 2 (day d)) = 2" "length (pad 2 (hour d)) = 2"
    "length (pad 2 (minute d)) = 2" "length (pad 2 (second d)) = 2"
    using b by (simp_all add: length_pad)
  have v: "valid_datetime \<lparr>year = year d, month = month d, day = day d, hour = hour d,
              minute = minute d, second = second d, microsecond = 0\<rparr>"
    using assms by (simp add: valid_datetime_def)
  show ?thesis
    unfolding strptime_def strftime_def
    by (simp only: layout [OF l] parse_nat_pad) (simp add: v Let_def)
qed

text \<open>
  Claim C5: for every actor and every creation timestamp (one with a non-zero
  sub-second component included), decoding the tag that \<^verbatim>\<open>owner_tag_key\<close>
  encodes gives back the actor's id and class, and the timestamp with its
  microseconds set to zero. The timestamp is one Python's \<^verbatim>\<open>datetime\<close> can hold.
\<close>

theorem owner_tag_round_trip:
  assumes "valid_datetime (date_created a)"
  shows "decode_owner_tag (owner_tag_key a)
         = Some \<lparr>tag_id = eid a, tag_date = (date_created a)\<lparr>microsecond := 0\<rparr>,
                 tag_cls = (if model a = PlayerDB then ''player'' else ''character'')\<rparr>"
  using assms by (simp add: decode_owner_tag_def owner_tag_key_def strptime_strftime)

text \<open>
  The run of \<^verbatim>\<open>test_owner_tag_key\<close>: the player with id 5, created on
  2014-05-04 at 06:02:45 and 83 microseconds.
\<close>

theorem owner_tag_round_trip_witness:
  "valid_datetime (date_created (player1\<lparr>eid := 5\<rparr>))
   \<and> microsecond (date_created (player1\<lparr>eid := 5\<rparr>)) = 83
   \<and> decode_owner_tag (owner_tag_key (player1\<lparr>eid := 5\<rparr>))
     = Some \<lparr>tag_id = 5,
             tag_date = \<lparr>year = 2014, month = 5, day = 4, hour = 6, minute = 2, second = 45,
                         microsecond = 0\<rparr>,
             tag_cls = ''player''\<rparr>"
  using owner_tag_round_trip [of "player1\<lparr>eid := 5\<rparr>"]
  by (simp add: player1_def mk_row_def test_date_def valid_datetime_def days_in_month_def
                is_leap_def)

subsection \<open>Prefix resolution\<close>

text \<open>
  Claim C6: on an object that exposes the standard handlers, \<^verbatim>\<open>wizh_foo\<close>
  resolves to \<^verbatim>\<open>foo\<close> in the wizard-hidden store, \<^verbatim>\<open>usrh_bar\<close> to \<^verbatim>\<open>bar\<close> in
  the user-hidden store, \<^verbatim>\<open>_baz\<close> to \<^verbatim>\<open>baz\<close> in the raw store and \<^verbatim>\<open>qux\<close> to
  \<^verbatim>\<open>qux\<close> in the default store; and so for every name of these four shapes: the
  table first, then the leading underscore, then the default.
\<close>

theorem prefix_check_standard:
  assumes "{WizHidden, UserHidden, User, Raw} \<subseteq> set (handlers obj)"
  shows "prefix_check COLLAB_PREFIXES obj ''wizh_foo'' = Inr (''foo'', WizHidden)
       \<and> prefix_check COLLAB_PREFIXES obj ''usrh_bar'' = Inr (''bar'', UserHidden)
       \<and> prefix_check COLLAB_PREFIXES obj ''_baz'' = Inr (''baz'', Raw)
       \<and> prefix_check COLLAB_PREFIXES obj ''qux'' = Inr (''qux'', User)
       \<and> (\<forall>s. prefix_check COLLAB_PREFIXES obj (''wizh_'' @ s) = Inr (s, WizHidden))
       \<and> (\<forall>s. prefix_check COLLAB_PREFIXES obj (''usrh_'' @ s) = Inr (s, UserHidden))
       \<and> (\<forall>s. prefix_check COLLAB_PREFIXES obj (''_'' @ s) = Inr (s, Raw))
       \<and> (\<forall>s. \<not> startswith s ''wizh_'' \<and> \<not> startswith s ''usrh_'' \<and> \<not> startswith s ''_''
              \<longrightarrow> prefix_check COLLAB_PREFIXES obj s = Inr (s, User))"
  using assms
  by (auto simp: prefix_check_def COLLAB_PREFIXES_def startswith_def)

text \<open>The four names of \<^verbatim>\<open>test_prefix_check\<close>.\<close>

theorem prefix_check_standard_witness:
  "{WizHidden, UserHidden, User, Raw} \<subseteq> set (handlers obj1)
   \<and> prefix_check COLLAB_PREFIXES player1 ''wizh_test'' = Inr (''test'', WizHidden)
   \<and> prefix_check COLLAB_PREFIXES obj1 ''usrh_stuff'' = Inr (''stuff'', UserHidden)
   \<and> prefix_check COLLAB_PREFIXES player1 ''default'' = Inr (''default'', User)
   \<and> prefix_check COLLAB_PREFIXES player1 ''_things'' = Inr (''things'', Raw)"
  using prefix_check_standard [of obj1] prefix_check_standard [of player1]
  by (simp add: obj1_def player1_def mk_row_def startswith_def)

subsection \<open>Attribute access\<close>

text \<open>
  The reconstructed \<^verbatim>\<open>attr_check\<close> passes the repository's test; with the
  table as the spec words it, the test fails.
\<close>

lemma test_attr_check_passes: "test_attr_check (attr_check immortal0 controls0)"
  by (simp add: test_attr_check_def perm_checks_def checks_def attr_check_def
      attr_check_with_def COLLAB_PROPTYPE_PERMS_def immortal0_def controls0_def py_eq_def
      player1_def player2_def obj1_def obj2_def mk_row_def)

lemma spec_table_fails_test:
  "\<not> test_attr_check (attr_check_with spec_table immortal0 controls0)"
  by (simp add: test_attr_check_def perm_checks_def checks_def attr_check_with_def
      spec_table_def immortal0_def controls0_def py_eq_def
      player1_def player2_def obj1_def obj2_def mk_row_def)




end
